theory Spec2Isabelle
  imports Complex_Main
begin

section \<open>Python values and library functions\<close>

text \<open>
  A Python float is modelled as the real number it denotes, so comparisons are exact.
  Arithmetic is exact in the model: rounding and underflow are not represented, and an
  equation between computed values is stated only at inputs where every intermediate
  result is a double. Exceptions are values of type \<open>error\<close>: the domain errors
  of the \<^verbatim>\<open>math\<close> module, and the overflow of \<^verbatim>\<open>math.pow\<close> and
  \<^verbatim>\<open>math.exp\<close>, decided on the exact result.
\<close>

datatype error = IndexError | ValueError | ZeroDivisionError | OverflowError | TypeError

definition and_then :: "error + 'a \<Rightarrow> ('a \<Rightarrow> error + 'b) \<Rightarrow> error + 'b" where
  "and_then m f = (case m of Inl e \<Rightarrow> Inl e | Inr x \<Rightarrow> f x)"

text \<open>\<^verbatim>\<open>xs[i]\<close> for an index that is never negative.\<close>

definition list_get :: "'a list \<Rightarrow> nat \<Rightarrow> error + 'a" where
  "list_get xs i = (if i < length xs then Inr (xs ! i) else Inl IndexError)"

text \<open>\<^verbatim>\<open>x / y\<close> on floats.\<close>

definition py_div :: "real \<Rightarrow> real \<Rightarrow> error + real" where
  "py_div x y = (if y = 0 then Inl ZeroDivisionError else Inr (x / y))"

text \<open>\<^verbatim>\<open>math.sqrt\<close>: a negative argument is a domain error.\<close>

definition math_sqrt :: "real \<Rightarrow> error + real" where
  "math_sqrt x = (if x < 0 then Inl ValueError else Inr (sqrt x))"

text \<open>
  The least magnitude that rounds to infinity in double precision: a result of
  \<^verbatim>\<open>math.pow\<close> or \<^verbatim>\<open>math.exp\<close> of at least this size is a range error.
\<close>

definition dbl_overflow :: real where
  "dbl_overflow = 2 ^ 1024 - 2 ^ 970"

text \<open>
  \<^verbatim>\<open>math.pow\<close>: zero to a negative power and a negative base with a fractional
  exponent are domain errors; a negative base with an integral exponent keeps the
  sign of the parity; a result too large for a double is \<^verbatim>\<open>OverflowError\<close>.
\<close>

definition math_pow :: "real \<Rightarrow> real \<Rightarrow> error + real" where
  "math_pow x y =
     (if x = 0 \<and> y < 0 then Inl ValueError
      else if x < 0 \<and> of_int \<lfloor>y\<rfloor> < y then Inl ValueError
      else
        (let v = (if y = 0 then 1
                  else if x = 0 then 0
                  else if 0 < x then x powr y
                  else if even \<lfloor>y\<rfloor> then (- x) powr y
                  else - ((- x) powr y))
         in if dbl_overflow \<le> \<bar>v\<bar> then Inl OverflowError else Inr v))"

text \<open>\<^verbatim>\<open>math.exp\<close>.\<close>

definition math_exp :: "real \<Rightarrow> error + real" where
  "math_exp x = (if dbl_overflow \<le> exp x then Inl OverflowError else Inr (exp x))"

text \<open>\<^verbatim>\<open>math.radians\<close> and \<^verbatim>\<open>math.degrees\<close>.\<close>

definition radians :: "real \<Rightarrow> real" where
  "radians x = x * (pi / 180)"

definition degrees :: "real \<Rightarrow> real" where
  "degrees x = x * (180 / pi)"

text \<open>
  \<^verbatim>\<open>math.atan2 y x\<close>: the angle of the point \<open>(x, y)\<close> in \<open>(-pi, pi]\<close>, and
  \<open>0\<close> at the origin.
\<close>

definition atan2 :: "real \<Rightarrow> real \<Rightarrow> real" where
  "atan2 y x =
     (if 0 < x then arctan (y / x)
      else if x < 0 \<and> 0 \<le> y then arctan (y / x) + pi
      else if x < 0 then arctan (y / x) - pi
      else if 0 < y then pi / 2
      else if y < 0 then - (pi / 2)
      else 0)"

section \<open>The standard atmosphere: \<^verbatim>\<open>getDensity\<close>\<close>

definition airMolWeight :: real where "airMolWeight = 28.9644"
definition densitySL :: real where "densitySL = 1.225"
definition pressureSL :: real where "pressureSL = 101325"
definition temperatureSL :: real where "temperatureSL = 288.15"
definition gamma :: real where "gamma = 1.4"
definition gravity :: real where "gravity = 9.80665"
definition RGas :: real where "RGas = 8.31432"
definition R :: real where "R = 287.053"
definition deltaTemperature :: real where "deltaTemperature = 0"

text \<open>
  The source also sets \<^verbatim>\<open>tempGrad = -0.0065\<close> among its constants and overwrites it
  with the table's gradient before any use; the model keeps only the second binding.
\<close>

definition altitudes :: "real list" where
  "altitudes = [0, 11000, 20000, 32000, 47000, 51000, 71000, 84852]"

definition pressureRels :: "real list" where
  "pressureRels =
     [1,
      0.223361105092158,
      0.05403295010784876,
      0.008566678359291667,
      0.0010945601337771144,
      0.0006606353132858367,
      0.00003904683373343926,
      0.0000036850095235747942]"

definition temperatures :: "real list" where
  "temperatures = [288.15, 216.65, 216.65, 228.65, 270.65, 270.65, 214.65, 186.946]"

definition tempGrads :: "real list" where
  "tempGrads = [-6.5, 0, 1, 2.8, 0, -2.8, -2, 0]"

definition gMR :: real where
  "gMR = gravity * airMolWeight / RGas"

text \<open>
  The region scan \<^verbatim>\<open>while altitude > altitudes[i + 1]: i = i + 1\<close>. The read
  \<^verbatim>\<open>altitudes[i + 1]\<close> raises once \<open>i + 1\<close> leaves the table.
\<close>

function getDensity_region :: "real \<Rightarrow> nat \<Rightarrow> error + nat" where
  "getDensity_region altitude i =
     (if i + 1 < length altitudes
      then (if altitude > altitudes ! (i + 1)
            then getDensity_region altitude (i + 1)
            else Inr i)
      else Inl IndexError)"
  by pat_completeness auto
termination
  by (relation "measure (\<lambda>(altitude, i). length altitudes - i)") auto

declare getDensity_region.simps [simp del]

definition getDensity :: "real \<Rightarrow> error + real" where
  "getDensity altitude =
     and_then (if altitude > 0 then getDensity_region altitude 0 else Inr 0) (\<lambda>i.
     and_then (list_get temperatures i) (\<lambda>baseTemp.
     and_then (list_get tempGrads i) (\<lambda>g.
     let tempGrad = g / 1000 in
     and_then (list_get pressureRels i) (\<lambda>pressureRelBase.
     and_then (list_get altitudes i) (\<lambda>baseAlt.
     let deltaAltitude = altitude - baseAlt;
         temperature = baseTemp + tempGrad * deltaAltitude in
     and_then
       (if \<bar>tempGrad\<bar> < 1 / 10 ^ 10
        then and_then (py_div (- 1 * gMR * deltaAltitude / 1000) baseTemp) (\<lambda>q.
             and_then (math_exp q) (\<lambda>p.
             Inr (pressureRelBase * p)))
        else and_then (py_div baseTemp temperature) (\<lambda>b.
             and_then (math_pow b (gMR / tempGrad / 1000)) (\<lambda>p.
             Inr (pressureRelBase * p)))) (\<lambda>pressureRel.
     let temperature = temperature + deltaTemperature in
     and_then (math_sqrt (gamma * R * temperature)) (\<lambda>speedOfSound.
     let pressure = pressureRel * pressureSL in
     py_div (densitySL * pressureRel * temperatureSL) temperature)))))))"


section \<open>Look angles: \<^verbatim>\<open>position_info\<close>\<close>

type_synonym position = "real \<times> real \<times> real"

record pos_info =
  listener :: position
  balloon :: position
  listener_radians :: position
  balloon_radians :: position
  angle_at_centre :: real
  angle_at_centre_radians :: real
  bearing :: real
  bearing_radians :: real
  great_circle_distance :: real
  straight_distance :: real
  elevation :: real
  elevation_radians :: real

definition radius :: real where "radius = 6364963"

definition position_info :: "position \<Rightarrow> position \<Rightarrow> error + pos_info" where
  "position_info listener0 balloon0 =
     (case listener0 of (lat1d, lon1d, alt1) \<Rightarrow>
      case balloon0 of (lat2d, lon2d, alt2) \<Rightarrow>
      let lat1 = radians lat1d;
          lat2 = radians lat2d;
          lon1 = radians lon1d;
          lon2 = radians lon2d;
          d_lon = lon2 - lon1;
          sa = cos lat2 * sin d_lon;
          sb = (cos lat1 * sin lat2) - (sin lat1 * cos lat2 * cos d_lon);
          bearing0 = atan2 sa sb in
      and_then (math_sqrt (sa\<^sup>2 + sb\<^sup>2)) (\<lambda>aa.
      let ab = (sin lat1 * sin lat2) + (cos lat1 * cos lat2 * cos d_lon);
          angle = atan2 aa ab;
          gcd0 = angle * radius;
          ta = radius + alt1;
          tb = radius + alt2;
          ea = (cos angle * tb) - ta;
          eb = sin angle * tb;
          elevation0 = atan2 ea eb in
      and_then (math_sqrt (ta\<^sup>2 + tb\<^sup>2 - 2 * tb * ta * cos angle)) (\<lambda>distance.
      let bearing1 = (if bearing0 < 0 then bearing0 + 2 * pi else bearing0) in
      Inr \<lparr> listener = listener0,
            balloon = balloon0,
            listener_radians = (lat1, lon1, alt1),
            balloon_radians = (lat2, lon2, alt2),
            angle_at_centre = degrees angle,
            angle_at_centre_radians = angle,
            bearing = degrees bearing1,
            bearing_radians = bearing1,
            great_circle_distance = gcd0,
            straight_distance = distance,
            elevation = degrees elevation0,
            elevation_radians = elevation0 \<rparr>)))"

text \<open>
  The quantities \<^verbatim>\<open>sa\<close>, \<^verbatim>\<open>sb\<close>, \<^verbatim>\<open>ab\<close>, the angle at the centre, the
  normalised bearing, the elevation and the chord as functions of the two positions
  (angles in radians), to state the fields of the result.
\<close>

definition sa_of :: "position \<Rightarrow> position \<Rightarrow> real" where
  "sa_of A B =
     (case A of (lat1, lon1, alt1) \<Rightarrow> case B of (lat2, lon2, alt2) \<Rightarrow>
        cos (radians lat2) * sin (radians lon2 - radians lon1))"

definition sb_of :: "position \<Rightarrow> position \<Rightarrow> real" where
  "sb_of A B =
     (case A of (lat1, lon1, alt1) \<Rightarrow> case B of (lat2, lon2, alt2) \<Rightarrow>
        cos (radians lat1) * sin (radians lat2)
          - sin (radians lat1) * cos (radians lat2) * cos (radians lon2 - radians lon1))"

definition ab_of :: "position \<Rightarrow> position \<Rightarrow> real" where
  "ab_of A B =
     (case A of (lat1, lon1, alt1) \<Rightarrow> case B of (lat2, lon2, alt2) \<Rightarrow>
        sin (radians lat1) * sin (radians lat2)
          + cos (radians lat1) * cos (radians lat2) * cos (radians lon2 - radians lon1))"

definition angle_of :: "position \<Rightarrow> position \<Rightarrow> real" where
  "angle_of A B = atan2 (sqrt ((sa_of A B)\<^sup>2 + (sb_of A B)\<^sup>2)) (ab_of A B)"

definition altitude_of :: "position \<Rightarrow> real" where
  "altitude_of A = snd (snd A)"

definition bearing_of :: "position \<Rightarrow> position \<Rightarrow> real" where
  "bearing_of A B =
     (if atan2 (sa_of A B) (sb_of A B) < 0 then atan2 (sa_of A B) (sb_of A B) + 2 * pi
      else atan2 (sa_of A B) (sb_of A B))"

definition elevation_of :: "position \<Rightarrow> position \<Rightarrow> real" where
  "elevation_of A B =
     atan2 (cos (angle_of A B) * (radius + altitude_of B) - (radius + altitude_of A))
           (sin (angle_of A B) * (radius + altitude_of B))"

definition distance_of :: "position \<Rightarrow> position \<Rightarrow> real" where
  "distance_of A B =
     sqrt ((radius + altitude_of A)\<^sup>2 + (radius + altitude_of B)\<^sup>2
           - 2 * (radius + altitude_of B) * (radius + altitude_of A) * cos (angle_of A B))"

section \<open>The visibility filter of \<^verbatim>\<open>step2.py\<close>\<close>

text \<open>
  A summary entry with the fields the filter reads; \<open>'d\<close> is the type of the raw
  \<^verbatim>\<open>datetime\<close> field.
\<close>

record 'd entry =
  serial :: string
  datetime :: 'd
  lat :: real
  lon :: real
  alt :: real

text \<open>
  What the loop calls and does not define: \<^verbatim>\<open>position_info\<close> as the interpreter
  evaluates it in double precision, \<^verbatim>\<open>dateutil.parser.parse\<close>, and
  \<^verbatim>\<open>(a - b).total_seconds()\<close> on two parsed times. Each may raise. The loop is
  modelled for any three such functions, so that what is proved of it holds for the
  interpreter's.
\<close>

record ('d, 't) runtime =
  look_angle :: "position \<Rightarrow> position \<Rightarrow> error + pos_info"
  parse :: "'d \<Rightarrow> error + 't"
  total_seconds :: "'t \<Rightarrow> 't \<Rightarrow> error + real"

text \<open>
  The runtime of exact arithmetic: \<open>position_info\<close> over the reals and times given
  in seconds. It agrees with the interpreter wherever every intermediate result is a
  double, as for an observer and targets on one vertical at whole-metre altitudes and
  whole-second times.
\<close>

definition exact_runtime :: "(real, real) runtime" where
  "exact_runtime =
     \<lparr> look_angle = position_info, parse = Inr, total_seconds = (\<lambda>a b. Inr (a - b)) \<rparr>"

text \<open>
  \<^verbatim>\<open>load_summary_file\<close> on the decoded content of a file (\<open>None\<close> when
  \<^verbatim>\<open>json.loads\<close> raised): anything but three entries is \<open>None\<close>.
\<close>

definition load_summary_file :: "'a list option \<Rightarrow> 'a list option" where
  "load_summary_file content =
     (case content of
        None \<Rightarrow> None
      | Some data \<Rightarrow> if length data \<noteq> 3 then None else Some data)"

text \<open>The body of the inner loop: one entry against the dictionary \<^verbatim>\<open>serials\<close>.\<close>

definition filter_entry ::
  "('d, 't) runtime \<Rightarrow> position \<Rightarrow> 't \<Rightarrow> real \<Rightarrow> real \<Rightarrow> (string \<rightharpoonup> 'd entry) \<Rightarrow> 'd entry
     \<Rightarrow> error + (string \<rightharpoonup> 'd entry)" where
  "filter_entry rt observer observer_time min_el window serials e =
     (let sonde_pos = (lat e, lon e, alt e) in
      and_then (look_angle rt observer sonde_pos) (\<lambda>info.
      if elevation info > min_el
      then and_then (parse rt (datetime e)) (\<lambda>pos_time.
           and_then (total_seconds rt observer_time pos_time) (\<lambda>seconds.
           let time_diff = \<bar>seconds\<bar> in
           if time_diff < window
           then Inr (serials(serial e \<mapsto> e))
           else Inr serials))
      else Inr serials))"

text \<open>\<^verbatim>\<open>for _entry in _data\<close>.\<close>

fun filter_entries ::
  "('d, 't) runtime \<Rightarrow> position \<Rightarrow> 't \<Rightarrow> real \<Rightarrow> real \<Rightarrow> (string \<rightharpoonup> 'd entry)
     \<Rightarrow> 'd entry list \<Rightarrow> error + (string \<rightharpoonup> 'd entry)" where
  "filter_entries rt observer observer_time min_el window serials [] = Inr serials"
| "filter_entries rt observer observer_time min_el window serials (e # es) =
     and_then (filter_entry rt observer observer_time min_el window serials e) (\<lambda>serials'.
     filter_entries rt observer observer_time min_el window serials' es)"

text \<open>
  \<^verbatim>\<open>for _file in _file_list\<close>, over the decoded contents of the files: a file
  whose \<^verbatim>\<open>_data\<close> is \<^verbatim>\<open>None\<close> or empty is skipped.
\<close>

fun filter_files ::
  "('d, 't) runtime \<Rightarrow> position \<Rightarrow> 't \<Rightarrow> real \<Rightarrow> real \<Rightarrow> (string \<rightharpoonup> 'd entry)
     \<Rightarrow> 'd entry list option list \<Rightarrow> error + (string \<rightharpoonup> 'd entry)" where
  "filter_files rt observer observer_time min_el window serials [] = Inr serials"
| "filter_files rt observer observer_time min_el window serials (file # files) =
     (case load_summary_file file of
        None \<Rightarrow> filter_files rt observer observer_time min_el window serials files
      | Some data \<Rightarrow>
          if data = []
          then filter_files rt observer observer_time min_el window serials files
          else and_then (filter_entries rt observer observer_time min_el window serials data)
                 (\<lambda>serials'.
                    filter_files rt observer observer_time min_el window serials' files))"

text \<open>
  The visibility predicate in the spec's words: the computed elevation is strictly above
  the threshold and the absolute time difference is strictly inside the window.
\<close>

definition visible ::
  "('d, 't) runtime \<Rightarrow> position \<Rightarrow> 't \<Rightarrow> real \<Rightarrow> real \<Rightarrow> 'd entry \<Rightarrow> bool" where
  "visible rt observer observer_time min_el window e =
     (case look_angle rt observer (lat e, lon e, alt e) of
        Inl err \<Rightarrow> False
      | Inr info \<Rightarrow>
          min_el < elevation info \<and>
          (case parse rt (datetime e) of
             Inl err \<Rightarrow> False
           | Inr pos_time \<Rightarrow>
               (case total_seconds rt observer_time pos_time of
                  Inl err \<Rightarrow> False
                | Inr seconds \<Rightarrow> \<bar>seconds\<bar> < window)))"

text \<open>
  The loop body raises nothing on an entry: the look angle is computed, and the time
  is parsed and subtracted when the elevation test sends the body there.
\<close>

definition computes ::
  "('d, 't) runtime \<Rightarrow> position \<Rightarrow> 't \<Rightarrow> real \<Rightarrow> 'd entry \<Rightarrow> bool" where
  "computes rt observer observer_time min_el e =
     (case look_angle rt observer (lat e, lon e, alt e) of
        Inl err \<Rightarrow> False
      | Inr info \<Rightarrow>
          if elevation info > min_el
          then (case parse rt (datetime e) of
                  Inl err \<Rightarrow> False
                | Inr pos_time \<Rightarrow>
                    (case total_seconds rt observer_time pos_time of
                       Inl err \<Rightarrow> False
                     | Inr seconds \<Rightarrow> True))
          else True)"

text \<open>
  The spec's match for a serial: the last entry in input order that carries the serial
  and satisfies the predicate.
\<close>

fun last_match :: "('d entry \<Rightarrow> bool) \<Rightarrow> string \<Rightarrow> 'd entry list \<Rightarrow> 'd entry option" where
  "last_match P s [] = None"
| "last_match P s (e # es) =
     (case last_match P s es of
        Some e' \<Rightarrow> Some e'
      | None \<Rightarrow> if serial e = s \<and> P e then Some e else None)"

text \<open>The entries the files hand to the inner loop, in input order.\<close>

definition loaded_entries :: "'a list option list \<Rightarrow> 'a list" where
  "loaded_entries files =
     concat (map (\<lambda>file. case load_summary_file file of None \<Rightarrow> [] | Some data \<Rightarrow> data) files)"

text \<open>What a run of the filter holds for a serial.\<close>

definition match_for :: "string \<Rightarrow> error + (string \<rightharpoonup> 'a) \<Rightarrow> error + 'a option" where
  "match_for s run = (case run of Inl err \<Rightarrow> Inl err | Inr m \<Rightarrow> Inr (m s))"

section \<open>Properties of the atmosphere model\<close>

subsection \<open>The region scan\<close>

lemma region_step:
  "getDensity_region altitude i =
     (if i + 1 < 8
      then (if altitude > altitudes ! (i + 1)
            then getDensity_region altitude (i + 1) else Inr i)
      else Inl IndexError)"
  by (subst getDensity_region.simps) (simp add: altitudes_def)

lemma region_above_table:
  "84852 < altitude \<Longrightarrow> getDensity_region altitude 0 = Inl IndexError"
  by (simp add: region_step altitudes_def)

lemma getDensity_above_table:
  "84852 < altitude \<Longrightarrow> getDensity altitude = Inl IndexError"
  by (simp add: getDensity_def and_then_def region_above_table)

text \<open>
  C1. The claim: for every real altitude, also above 84852 m, \<open>getDensity\<close> returns a
  density and the scan stays inside the 8-entry table. The code does not: at 90000 m the
  scan passes \<open>i = 7\<close>, reads \<^verbatim>\<open>altitudes[8]\<close> and raises \<^verbatim>\<open>IndexError\<close>, as it
  does at every altitude above 84852 m (\<open>getDensity_above_table\<close>); the top row of the
  table is never used.
\<close>

theorem getDensity_90000_raises: "getDensity 90000 = Inl IndexError"
  by (simp add: getDensity_def and_then_def region_step altitudes_def)

subsection \<open>Sea level\<close>



subsection \<open>The sea-level descent rate\<close>











section \<open>Properties of the look angles\<close>

subsection \<open>The inverse tangent\<close>

lemma atan2_bounds: "- pi < atan2 y x \<and> atan2 y x \<le> pi"
proof -
  have a: "- (pi / 2) < arctan (y / x)" "arctan (y / x) < pi / 2"
    by (rule arctan_lbound, rule arctan_ubound)
  have b: "x < 0 \<Longrightarrow> 0 \<le> y \<Longrightarrow> arctan (y / x) \<le> 0"
    by (simp add: divide_nonneg_neg arctan_le_zero_iff)
  have c: "x < 0 \<Longrightarrow> y < 0 \<Longrightarrow> 0 < arctan (y / x)"
    by (simp add: divide_neg_neg arctan_less_zero_iff zero_less_arctan_iff)
  show ?thesis using a b c pi_gt_zero by (auto simp: atan2_def; argo)
qed

lemma atan2_nonneg: "0 \<le> y \<Longrightarrow> 0 \<le> atan2 y x"
proof -
  assume y: "0 \<le> y"
  have a: "0 < x \<Longrightarrow> 0 \<le> arctan (y / x)" using y by (simp add: zero_le_arctan_iff)
  have b: "- (pi / 2) < arctan (y / x)" by (rule arctan_lbound)
  show ?thesis using a b y pi_gt_zero by (auto simp: atan2_def; argo)
qed

lemma atan2_right_half: "0 \<le> x \<Longrightarrow> - (pi / 2) \<le> atan2 y x \<and> atan2 y x \<le> pi / 2"
proof -
  assume x: "0 \<le> x"
  have a: "- (pi / 2) < arctan (y / x)" "arctan (y / x) < pi / 2"
    by (rule arctan_lbound, rule arctan_ubound)
  show ?thesis using a x pi_gt_zero by (auto simp: atan2_def; argo)
qed

lemma degrees_mono: "x \<le> y \<Longrightarrow> degrees x \<le> degrees y"
  unfolding degrees_def by (rule mult_right_mono) simp_all

lemma degrees_values:
  "degrees 0 = 0" "degrees (pi / 2) = 90" "degrees (- (pi / 2)) = - 90"
  by (simp_all add: degrees_def)

subsection \<open>The triangle\<close>

lemma chord_nonneg:
  fixes ta tb t :: real
  shows "0 \<le> ta\<^sup>2 + tb\<^sup>2 - 2 * tb * ta * cos t"
proof -
  have "ta\<^sup>2 + tb\<^sup>2 - 2 * tb * ta * cos t
          = (ta - tb * cos t)\<^sup>2 + tb\<^sup>2 * (1 - (cos t)\<^sup>2)"
    by (simp add: power2_eq_square algebra_simps)
  also have "\<dots> = (ta - tb * cos t)\<^sup>2 + tb\<^sup>2 * (sin t)\<^sup>2"
    by (simp only: sin_squared_eq)
  also have "0 \<le> \<dots>" by simp
  finally show ?thesis .
qed

lemma math_sqrt_nonneg: "0 \<le> x \<Longrightarrow> math_sqrt x = Inr (sqrt x)"
  by (simp add: math_sqrt_def)

subsection \<open>The fields of the result\<close>

text \<open>
  In exact arithmetic both arguments of \<^verbatim>\<open>math.sqrt\<close> are sums that cannot be
  negative, and the fields of the result are the closed forms.
\<close>

lemma position_info_fields:
  "\<exists>r. position_info A B = Inr r
       \<and> bearing r = degrees (bearing_of A B)
       \<and> elevation r = degrees (elevation_of A B)
       \<and> great_circle_distance r = angle_of A B * radius
       \<and> straight_distance r = distance_of A B"
proof -
  obtain lat1 lon1 alt1 where A: "A = (lat1, lon1, alt1)" by (cases A) auto
  obtain lat2 lon2 alt2 where B: "B = (lat2, lon2, alt2)" by (cases B) auto
  have n: "0 \<le> x\<^sup>2 + y\<^sup>2" for x y :: real by simp
  show ?thesis
    unfolding position_info_def A B prod.case Let_def
    apply (simp only: math_sqrt_nonneg[OF n] math_sqrt_nonneg[OF chord_nonneg] and_then_def
        sum.case)
    apply (simp add: bearing_of_def elevation_of_def distance_of_def angle_of_def sa_of_def
        sb_of_def ab_of_def altitude_of_def)
    done
qed

lemma angle_of_range: "0 \<le> angle_of A B \<and> angle_of A B \<le> pi"
  using atan2_nonneg[of "sqrt ((sa_of A B)\<^sup>2 + (sb_of A B)\<^sup>2)" "ab_of A B"]
    atan2_bounds[of "sqrt ((sa_of A B)\<^sup>2 + (sb_of A B)\<^sup>2)" "ab_of A B"]
  by (simp add: angle_of_def)

lemma elevation_of_range:
  assumes "0 \<le> radius + altitude_of B"
  shows "- (pi / 2) \<le> elevation_of A B \<and> elevation_of A B \<le> pi / 2"
proof -
  have "0 \<le> sin (angle_of A B)" using angle_of_range[of A B] by (simp add: sin_ge_zero)
  then have "0 \<le> sin (angle_of A B) * (radius + altitude_of B)" using assms by simp
  then show ?thesis unfolding elevation_of_def by (rule atan2_right_half)
qed

lemma same_point:
  "sa_of (la, lo, a1) (la, lo, a2) = 0" "sb_of (la, lo, a1) (la, lo, a2) = 0"
  "ab_of (la, lo, a1) (la, lo, a2) = 1" "angle_of (la, lo, a1) (la, lo, a2) = 0"
proof -
  show 1: "sa_of (la, lo, a1) (la, lo, a2) = 0" by (simp add: sa_of_def)
  show 2: "sb_of (la, lo, a1) (la, lo, a2) = 0" by (simp add: sb_of_def)
  show 3: "ab_of (la, lo, a1) (la, lo, a2) = 1"
    by (simp add: ab_of_def power2_eq_square[symmetric])
  show "angle_of (la, lo, a1) (la, lo, a2) = 0" by (simp add: angle_of_def 1 2 3 atan2_def)
qed

lemma overhead:
  "bearing_of (la, lo, a1) (la, lo, a2) = 0"
  "a1 < a2 \<Longrightarrow> elevation_of (la, lo, a1) (la, lo, a2) = pi / 2"
  "a2 < a1 \<Longrightarrow> elevation_of (la, lo, a1) (la, lo, a2) = - (pi / 2)"
  "distance_of (la, lo, a1) (la, lo, a2) = \<bar>a2 - a1\<bar>"
proof -
  show "bearing_of (la, lo, a1) (la, lo, a2) = 0"
    by (simp add: bearing_of_def same_point atan2_def)
  show "a1 < a2 \<Longrightarrow> elevation_of (la, lo, a1) (la, lo, a2) = pi / 2"
    by (simp add: elevation_of_def same_point atan2_def altitude_of_def)
  show "a2 < a1 \<Longrightarrow> elevation_of (la, lo, a1) (la, lo, a2) = - (pi / 2)"
    by (simp add: elevation_of_def same_point atan2_def altitude_of_def)
  have "(radius + a1)\<^sup>2 + (radius + a2)\<^sup>2 - 2 * (radius + a2) * (radius + a1) = (a2 - a1)\<^sup>2"
    by (simp add: power2_eq_square algebra_simps)
  then show "distance_of (la, lo, a1) (la, lo, a2) = \<bar>a2 - a1\<bar>"
    by (simp add: distance_of_def same_point altitude_of_def)
qed

subsection \<open>The claims on \<open>position_info\<close>\<close>

text \<open>
  C9. For the observer \<open>(37.4300, -89.6436, 161)\<close> and the target
  \<open>(37.4300, -89.6436, 1000)\<close>, \<open>position_info\<close> returns elevation 90 degrees, bearing
  0 degrees and straight-line distance 839 metres.
\<close>

theorem overhead_case:
  "\<exists>r. position_info (37.43, - 89.6436, 161) (37.43, - 89.6436, 1000) = Inr r
       \<and> elevation r = 90 \<and> bearing r = 0 \<and> straight_distance r = 839"
proof -
  obtain r where r: "position_info (37.43, - 89.6436, 161) (37.43, - 89.6436, 1000) = Inr r"
      "bearing r = degrees (bearing_of (37.43, - 89.6436, 161) (37.43, - 89.6436, 1000))"
      "elevation r = degrees (elevation_of (37.43, - 89.6436, 161) (37.43, - 89.6436, 1000))"
      "straight_distance r = distance_of (37.43, - 89.6436, 161) (37.43, - 89.6436, 1000)"
    using position_info_fields[of "(37.43, - 89.6436, 161)" "(37.43, - 89.6436, 1000)"] by blast
  show ?thesis using r by (simp add: overhead degrees_values)
qed

text \<open>
  C3. The claim: the elevation lies in the half-open interval \<open>(-90, 90]\<close> for every pair
  of positions. With the target 1000 m straight below the observer the angle at the
  centre is 0, \<^verbatim>\<open>eb\<close> is 0 and \<^verbatim>\<open>ea\<close> is negative, and the elevation is exactly
  \<open>-90\<close> degrees.
\<close>

theorem elevation_minus_90:
  "map_sum id elevation (position_info (0, 0, 1000) (0, 0, 0)) = Inr (- 90)"
proof -
  obtain r where r: "position_info (0, 0, 1000) (0, 0, 0) = Inr r"
      "elevation r = degrees (elevation_of (0, 0, 1000) (0, 0, 0))"
    using position_info_fields[of "(0, 0, 1000)" "(0, 0, 0)"] by blast
  show ?thesis using r by (simp add: overhead degrees_values)
qed

text \<open>
  C3 as amended: for every observer and every target whose distance from the centre,
  \<open>radius + alt2\<close>, is not negative, the elevation of a result that \<open>position_info\<close>
  returns lies in the closed interval \<open>[-90, 90]\<close>. Nothing is said of the calls that
  raise: in double precision the argument of the last \<^verbatim>\<open>math.sqrt\<close> can round
  below zero when target and observer nearly coincide.
\<close>

theorem elevation_range:
  assumes "0 \<le> radius + alt2"
    and "position_info A (lat2, lon2, alt2) = Inr r"
  shows "- 90 \<le> elevation r \<and> elevation r \<le> 90"
proof -
  let ?B = "(lat2, lon2, alt2)"
  have r: "elevation r = degrees (elevation_of A ?B)"
    using position_info_fields[of A ?B] assms(2) by auto
  have "0 \<le> radius + altitude_of ?B" using assms(1) by (simp add: altitude_of_def)
  then have "degrees (- (pi / 2)) \<le> degrees (elevation_of A ?B)"
       "degrees (elevation_of A ?B) \<le> degrees (pi / 2)"
    using elevation_of_range[of ?B A] by (simp_all add: degrees_mono)
  then show ?thesis using r by (simp add: degrees_values)
qed

theorem elevation_range_witness:
  "0 \<le> radius + 2000
     \<and> (\<exists>r. position_info (0, 0, 1000) (0, 0, 2000) = Inr r
             \<and> - 90 \<le> elevation r \<and> elevation r \<le> 90)"
proof -
  have h: "0 \<le> radius + 2000" by (simp add: radius_def)
  obtain r where r: "position_info (0, 0, 1000) (0, 0, 2000) = Inr r"
    using position_info_fields[of "(0, 0, 1000)" "(0, 0, 2000)"] by blast
  from elevation_range[OF h r] h r show ?thesis by simp
qed

text \<open>
  The strict upper bound of the bearing and the equality of the distances computed in
  the two directions hold in exact arithmetic only. In double precision a small negative
  bearing plus \<^verbatim>\<open>2 * pi\<close> rounds to \<^verbatim>\<open>2 * pi\<close>, and the two directions round
  differently; both are properties of the rounding, which this model does not represent,
  and neither is stated here. The same holds for the strict decrease of the density
  between nearly equal altitudes.
\<close>

section \<open>Properties of the visibility filter\<close>

subsection \<open>The loop\<close>

lemma filter_entry_computes:
  assumes "computes rt observer observer_time min_el e"
  shows "filter_entry rt observer observer_time min_el window serials e =
           Inr (if visible rt observer observer_time min_el window e
                then serials(serial e \<mapsto> e) else serials)"
  using assms
  by (auto simp: filter_entry_def computes_def visible_def and_then_def Let_def
      split: sum.splits if_splits)

lemma filter_entry_raises:
  assumes "\<not> computes rt observer observer_time min_el e"
  shows "\<exists>err. filter_entry rt observer observer_time min_el window serials e = Inl err"
  using assms
  by (auto simp: filter_entry_def computes_def and_then_def Let_def
      split: sum.splits if_splits)

text \<open>
  When the body raises on no entry the loop returns, and the dictionary holds for each
  serial its last matching entry, or what was there before when no entry matches.
\<close>

lemma filter_entries_last_match:
  assumes "\<forall>e \<in> set es. computes rt observer observer_time min_el e"
  shows "\<exists>m. filter_entries rt observer observer_time min_el window serials es = Inr m
           \<and> (\<forall>s. m s = (case last_match (visible rt observer observer_time min_el window) s es
                          of None \<Rightarrow> serials s | Some e \<Rightarrow> Some e))"
  using assms
proof (induction es arbitrary: serials)
  case Nil
  show ?case by simp
next
  case (Cons e es)
  let ?P = "visible rt observer observer_time min_el window"
  let ?serials' = "if ?P e then serials(serial e \<mapsto> e) else serials"
  have c: "computes rt observer observer_time min_el e" using Cons.prems by simp
  have "\<forall>e \<in> set es. computes rt observer observer_time min_el e" using Cons.prems by simp
  then obtain m where
    m: "filter_entries rt observer observer_time min_el window ?serials' es = Inr m"
      "\<And>s. m s = (case last_match ?P s es of None \<Rightarrow> ?serials' s | Some e \<Rightarrow> Some e)"
    using Cons.IH[of ?serials'] by blast
  have "filter_entries rt observer observer_time min_el window serials (e # es) = Inr m"
    using m(1) by (simp add: filter_entry_computes[OF c] and_then_def)
  moreover have "m s = (case last_match ?P s (e # es) of
                    None \<Rightarrow> serials s | Some e \<Rightarrow> Some e)" for s
    by (simp add: m(2) split: option.split)
  ultimately show ?case by blast
qed

text \<open>When the body raises on some entry the loop raises and there is no match set.\<close>

lemma filter_entries_raises:
  assumes "\<exists>e \<in> set es. \<not> computes rt observer observer_time min_el e"
  shows "\<exists>err. filter_entries rt observer observer_time min_el window serials es = Inl err"
  using assms
proof (induction es arbitrary: serials)
  case Nil
  then show ?case by simp
next
  case (Cons e es)
  show ?case
  proof (cases "computes rt observer observer_time min_el e")
    case True
    then have "\<exists>e \<in> set es. \<not> computes rt observer observer_time min_el e"
      using Cons.prems by auto
    then show ?thesis
      using Cons.IH by (simp add: filter_entry_computes[OF True] and_then_def)
  next
    case False
    obtain err where
      "filter_entry rt observer observer_time min_el window serials e = Inl err"
      using filter_entry_raises[OF False, of window serials] by (elim exE)
    then show ?thesis by (simp add: and_then_def)
  qed
qed

lemma filter_entries_append:
  "filter_entries rt observer observer_time min_el window serials (xs @ ys) =
     and_then (filter_entries rt observer observer_time min_el window serials xs)
       (\<lambda>serials'. filter_entries rt observer observer_time min_el window serials' ys)"
  by (induction xs arbitrary: serials) (simp_all add: and_then_def split: sum.split)

text \<open>The loop over the files is the loop over their entries, in input order.\<close>

lemma filter_files_entries:
  "filter_files rt observer observer_time min_el window serials files =
     filter_entries rt observer observer_time min_el window serials (loaded_entries files)"
proof (induction files arbitrary: serials)
  case Nil
  show ?case by (simp add: loaded_entries_def)
next
  case (Cons f fs)
  have l: "loaded_entries (f # fs) =
      (case load_summary_file f of None \<Rightarrow> [] | Some data \<Rightarrow> data) @ loaded_entries fs"
    by (simp add: loaded_entries_def)
  show ?case
    unfolding l filter_entries_append
    by (simp add: Cons.IH and_then_def split: option.split)
qed

subsection \<open>The last match\<close>

lemma last_match_None:
  "last_match P s es = None \<longleftrightarrow> (\<forall>e \<in> set es. \<not> (serial e = s \<and> P e))"
  by (induction es) (auto split: option.splits)

lemma last_match_Some:
  "last_match P s es = Some e \<Longrightarrow> e \<in> set es \<and> serial e = s \<and> P e"
  by (induction es) (auto split: option.splits if_splits)

lemma last_match_nth:
  assumes "j < length es" "serial (es ! j) = s" "P (es ! j)"
    and "\<And>k. j < k \<Longrightarrow> k < length es \<Longrightarrow> serial (es ! k) = s \<Longrightarrow> \<not> P (es ! k)"
  shows "last_match P s es = Some (es ! j)"
  using assms
proof (induction es arbitrary: j)
  case Nil
  then show ?case by simp
next
  case (Cons e es)
  show ?case
  proof (cases j)
    case 0
    have "\<forall>x \<in> set es. \<not> (serial x = s \<and> P x)"
    proof
      fix x assume "x \<in> set es"
      then obtain k where k: "k < length es" "es ! k = x" by (auto simp: in_set_conv_nth)
      then show "\<not> (serial x = s \<and> P x)"
        using Cons.prems(4)[of "Suc k"] 0 by auto
    qed
    then have "last_match P s es = None" by (simp add: last_match_None)
    then show ?thesis using Cons.prems(2,3) 0 by simp
  next
    case (Suc j')
    have "last_match P s es = Some (es ! j')"
    proof (rule Cons.IH)
      show "j' < length es" using Cons.prems(1) Suc by simp
      show "serial (es ! j') = s" using Cons.prems(2) Suc by simp
      show "P (es ! j')" using Cons.prems(3) Suc by simp
      show "\<And>k. j' < k \<Longrightarrow> k < length es \<Longrightarrow> serial (es ! k) = s \<Longrightarrow> \<not> P (es ! k)"
        using Cons.prems(4)[of "Suc k" for k] Suc by simp
    qed
    then show ?thesis using Suc by simp
  qed
qed

subsection \<open>The runtime of exact arithmetic\<close>

lemma computes_exact: "computes exact_runtime observer observer_time min_el e"
proof -
  obtain r where "position_info observer (lat e, lon e, alt e) = Inr r"
    using position_info_fields[of observer "(lat e, lon e, alt e)"] by blast
  then show ?thesis by (simp add: computes_def exact_runtime_def)
qed

lemma visible_overhead:
  assumes "lat e = la" "lon e = lo" "a1 < alt e"
  shows "visible exact_runtime (la, lo, a1) observer_time min_el window e
           \<longleftrightarrow> min_el < 90 \<and> \<bar>observer_time - datetime e\<bar> < window"
proof -
  obtain r where r: "position_info (la, lo, a1) (la, lo, alt e) = Inr r"
      "elevation r = degrees (elevation_of (la, lo, a1) (la, lo, alt e))"
    using position_info_fields[of "(la, lo, a1)" "(la, lo, alt e)"] by blast
  show ?thesis
    using r assms by (simp add: visible_def exact_runtime_def overhead degrees_values)
qed

subsection \<open>The claims on the filter\<close>

text \<open>
  C4. For every input sequence on which the loop body raises nothing, with two entries
  of the same serial at positions \<open>i < j\<close>, both satisfying the visibility predicate,
  the one at \<open>j\<close> being the last entry of that serial that satisfies it, the filter
  returns and its match set maps the serial to the entry at position \<open>j\<close>. This holds
  for any look-angle, parsing and time-difference functions, the interpreter's among
  them.
\<close>

theorem last_match_wins:
  assumes "\<forall>e \<in> set es. computes rt observer observer_time min_el e"
    and "i < j" "j < length es"
    and "serial (es ! i) = serial (es ! j)"
    and "visible rt observer observer_time min_el window (es ! i)"
    and "visible rt observer observer_time min_el window (es ! j)"
    and "\<And>k. j < k \<Longrightarrow> k < length es \<Longrightarrow> serial (es ! k) = serial (es ! j)
           \<Longrightarrow> \<not> visible rt observer observer_time min_el window (es ! k)"
  shows "\<exists>m. filter_entries rt observer observer_time min_el window Map.empty es = Inr m
             \<and> m (serial (es ! j)) = Some (es ! j)"
proof -
  have "last_match (visible rt observer observer_time min_el window) (serial (es ! j)) es
          = Some (es ! j)"
    using assms(3) _ assms(6,7) by (rule last_match_nth) simp
  then show ?thesis
    using filter_entries_last_match[OF assms(1), of window Map.empty]
    by auto
qed

theorem last_match_wins_witness:
  "\<exists>m. filter_entries exact_runtime (0, 0, 0) 0 0 10 Map.empty
         [\<lparr>serial = ''A'', datetime = 0, lat = 0, lon = 0, alt = 1000\<rparr>,
          \<lparr>serial = ''A'', datetime = 1, lat = 0, lon = 0, alt = 2000\<rparr>] = Inr m
       \<and> m ''A'' = Some \<lparr>serial = ''A'', datetime = 1, lat = 0, lon = 0, alt = 2000\<rparr>"
proof -
  let ?es = "[\<lparr>serial = ''A'', datetime = 0::real, lat = 0, lon = 0, alt = 1000\<rparr>,
              \<lparr>serial = ''A'', datetime = 1, lat = 0, lon = 0, alt = 2000\<rparr>]"
  have "\<exists>m. filter_entries exact_runtime (0, 0, 0) 0 0 10 Map.empty ?es = Inr m
           \<and> m (serial (?es ! 1)) = Some (?es ! 1)"
  proof (rule last_match_wins[of ?es exact_runtime "(0, 0, 0)" 0 0 0 1])
    show "\<forall>e \<in> set ?es. computes exact_runtime (0, 0, 0) 0 0 e"
      by (simp add: computes_exact)
    show "(0::nat) < 1" by simp
    show "1 < length ?es" by simp
    show "serial (?es ! 0) = serial (?es ! 1)" by simp
    show "visible exact_runtime (0, 0, 0) 0 0 10 (?es ! 0)" by (simp add: visible_overhead)
    show "visible exact_runtime (0, 0, 0) 0 0 10 (?es ! 1)" by (simp add: visible_overhead)
    show "\<not> visible exact_runtime (0, 0, 0) 0 0 10 (?es ! k)"
      if "1 < k" "k < length ?es" for k
      using that by simp
  qed
  then show ?thesis by simp
qed

text \<open>
  C5. The claim: a record is in the match set if and only if it passes both strict
  comparisons. With two entries of one serial that both pass, the match set holds
  the second under the serial and the first, which passes, is not in it.
\<close>

theorem earlier_match_overwritten:
  "match_for ''A''
     (filter_entries exact_runtime (0, 0, 0) 0 0 10 Map.empty
        [\<lparr>serial = ''A'', datetime = 0, lat = 0, lon = 0, alt = 1000\<rparr>,
         \<lparr>serial = ''A'', datetime = 1, lat = 0, lon = 0, alt = 2000\<rparr>])
     = Inr (Some \<lparr>serial = ''A'', datetime = 1, lat = 0, lon = 0, alt = 2000\<rparr>)
   \<and> visible exact_runtime (0, 0, 0) 0 0 10
       \<lparr>serial = ''A'', datetime = 0, lat = 0, lon = 0, alt = 1000\<rparr>
   \<and> \<lparr>serial = ''A'', datetime = 0::real, lat = 0, lon = 0, alt = 1000\<rparr>
       \<noteq> \<lparr>serial = ''A'', datetime = 1, lat = 0, lon = 0, alt = 2000\<rparr>"
  by (simp add: match_for_def and_then_def filter_entry_computes[OF computes_exact]
      visible_overhead)

text \<open>
  C5 as amended: for every input sequence on which the loop body raises nothing, the
  filter returns a match set that holds, for each serial, the last entry of that serial
  passing both strict comparisons. So a serial is present if and only if some entry of
  it passes; every stored entry is an input entry that passes, never one at a boundary
  or beyond; and a passing entry is stored when no later entry of its serial passes.
\<close>

theorem visibility_inclusion:
  assumes "\<forall>e \<in> set es. computes rt observer observer_time min_el e"
  shows "\<exists>m. filter_entries rt observer observer_time min_el window Map.empty es = Inr m
       \<and> (\<forall>s. m s = last_match (visible rt observer observer_time min_el window) s es)
       \<and> (\<forall>s. s \<in> dom m \<longleftrightarrow>
                (\<exists>e \<in> set es. serial e = s
                     \<and> visible rt observer observer_time min_el window e))
       \<and> (\<forall>s e. m s = Some e \<longrightarrow>
                e \<in> set es \<and> serial e = s
                  \<and> visible rt observer observer_time min_el window e)
       \<and> (\<forall>j < length es.
             visible rt observer observer_time min_el window (es ! j)
             \<and> (\<forall>k. j < k \<and> k < length es \<and> serial (es ! k) = serial (es ! j)
                      \<longrightarrow> \<not> visible rt observer observer_time min_el window (es ! k))
             \<longrightarrow> m (serial (es ! j)) = Some (es ! j))"
proof -
  let ?P = "visible rt observer observer_time min_el window"
  obtain m where
    m: "filter_entries rt observer observer_time min_el window Map.empty es = Inr m"
      "\<And>s. m s = (case last_match ?P s es of None \<Rightarrow> None | Some e \<Rightarrow> Some e)"
    using filter_entries_last_match[OF assms, of window Map.empty] by auto
  have ms: "m s = last_match ?P s es" for s by (simp add: m(2) split: option.split)
  have 0: "\<forall>s. m s = last_match ?P s es" using ms by simp
  have 1: "\<forall>s. s \<in> dom m \<longleftrightarrow> (\<exists>e \<in> set es. serial e = s \<and> ?P e)"
    by (simp add: dom_def ms last_match_None)
  have 2: "\<forall>s e. m s = Some e \<longrightarrow> e \<in> set es \<and> serial e = s \<and> ?P e"
    using last_match_Some[of ?P _ es] by (simp add: ms)
  have 3: "\<forall>j < length es.
             ?P (es ! j)
             \<and> (\<forall>k. j < k \<and> k < length es \<and> serial (es ! k) = serial (es ! j)
                      \<longrightarrow> \<not> ?P (es ! k))
             \<longrightarrow> m (serial (es ! j)) = Some (es ! j)"
  proof (intro allI impI)
    fix j
    assume j: "j < length es"
      and h: "?P (es ! j) \<and> (\<forall>k. j < k \<and> k < length es \<and> serial (es ! k) = serial (es ! j)
                      \<longrightarrow> \<not> ?P (es ! k))"
    have "last_match ?P (serial (es ! j)) es = Some (es ! j)"
    proof (rule last_match_nth[OF j])
      show "serial (es ! j) = serial (es ! j)" by simp
      show "?P (es ! j)" using h by simp
      show "\<not> ?P (es ! k)" if "j < k" "k < length es" "serial (es ! k) = serial (es ! j)" for k
        using h that by blast
    qed
    then show "m (serial (es ! j)) = Some (es ! j)" by (simp add: ms)
  qed
  show ?thesis by (intro exI[of _ m] conjI) (rule m(1), rule 0, rule 1, rule 2, rule 3)
qed

theorem visibility_inclusion_witness:
  "\<exists>m. filter_entries exact_runtime (0, 0, 0) 0 0 10 Map.empty
         [\<lparr>serial = ''A'', datetime = 5, lat = 0, lon = 0, alt = 1000\<rparr>,
          \<lparr>serial = ''B'', datetime = 10, lat = 0, lon = 0, alt = 1000\<rparr>] = Inr m
       \<and> ''A'' \<in> dom m \<and> ''B'' \<notin> dom m"
proof -
  let ?es = "[\<lparr>serial = ''A'', datetime = 5::real, lat = 0, lon = 0, alt = 1000\<rparr>,
              \<lparr>serial = ''B'', datetime = 10, lat = 0, lon = 0, alt = 1000\<rparr>]"
  have c: "\<forall>e \<in> set ?es. computes exact_runtime (0, 0, 0) 0 0 e"
    by (simp add: computes_exact)
  have "\<exists>m. filter_entries exact_runtime (0, 0, 0) 0 0 10 Map.empty ?es = Inr m
           \<and> (\<forall>s. s \<in> dom m \<longleftrightarrow>
                (\<exists>e \<in> set ?es. serial e = s \<and> visible exact_runtime (0, 0, 0) 0 0 10 e))"
    using visibility_inclusion[OF c, of 10]
    by (elim exE conjE, intro exI conjI) assumption+
  then obtain m where m: "filter_entries exact_runtime (0, 0, 0) 0 0 10 Map.empty ?es = Inr m"
    and d: "\<And>s. s \<in> dom m \<longleftrightarrow>
              (\<exists>e \<in> set ?es. serial e = s \<and> visible exact_runtime (0, 0, 0) 0 0 10 e)"
    by (elim exE conjE) simp
  have "''A'' \<in> dom m" unfolding d by (simp add: visible_overhead)
  moreover have "''B'' \<notin> dom m" unfolding d by (simp add: visible_overhead)
  ultimately show ?thesis using m by simp
qed

end
